theory Spec2Isabelle
  imports Complex_Main "HOL-Library.AList"
begin

section \<open>Expense tracker: ledger, aggregation, form and persistence\<close>

text \<open>
  The two source files (\<^verbatim>\<open>src/pages/index.js\<close> and its decorated variant
  \<^verbatim>\<open>src/unnamed/part_000\<close>) define one React component \<^verbatim>\<open>Home\<close> with the same
  state, the same derived totals and the same handlers; the variant names the two handlers
  that the first file writes inline (\<^verbatim>\<open>handleAddTransaction\<close>,
  \<^verbatim>\<open>handleDeleteTransaction\<close>). The definitions below follow that component and keep
  its names.

  Strings are lists of 8-bit characters, read as the code units below 256.
\<close>

subsection \<open>JavaScript numbers\<close>

text \<open>
  A transaction amount is a JavaScript Number. The three special values are kept apart
  from the finite ones, because the code's comparisons and sums treat them differently.
  Finite values are rationals and finite arithmetic is exact: the rounding of binary64
  (and with it the overflow of a finite sum to an infinity) is outside this model, and
  \<open>-0\<close> is not told apart from \<open>0\<close>.
\<close>

datatype jsnum = NaN | PInf | NInf | Fin rat

text \<open>
  The relational operators \<^verbatim>\<open><\<close>, \<^verbatim>\<open>>\<close>, \<^verbatim>\<open><=\<close> and \<^verbatim>\<open>>=\<close>: false as soon
  as an operand is NaN.
\<close>

fun jslt :: "jsnum \<Rightarrow> jsnum \<Rightarrow> bool" where
  "jslt NaN _ = False"
| "jslt _ NaN = False"
| "jslt PInf _ = False"
| "jslt _ NInf = False"
| "jslt NInf _ = True"
| "jslt (Fin a) PInf = True"
| "jslt (Fin a) (Fin b) = (a < b)"

definition jsgt :: "jsnum \<Rightarrow> jsnum \<Rightarrow> bool" where
  "jsgt a b = jslt b a"

definition jsle :: "jsnum \<Rightarrow> jsnum \<Rightarrow> bool" where
  "jsle a b = (a \<noteq> NaN \<and> b \<noteq> NaN \<and> \<not> jslt b a)"

definition jsge :: "jsnum \<Rightarrow> jsnum \<Rightarrow> bool" where
  "jsge a b = jsle b a"

text \<open>The operator \<^verbatim>\<open>+\<close> on two Numbers.\<close>

fun jsadd :: "jsnum \<Rightarrow> jsnum \<Rightarrow> jsnum" where
  "jsadd NaN _ = NaN"
| "jsadd _ NaN = NaN"
| "jsadd PInf NInf = NaN"
| "jsadd NInf PInf = NaN"
| "jsadd PInf _ = PInf"
| "jsadd _ PInf = PInf"
| "jsadd NInf _ = NInf"
| "jsadd _ NInf = NInf"
| "jsadd (Fin a) (Fin b) = Fin (a + b)"

text \<open>Unary minus (the sign of a literal) and \<^verbatim>\<open>Math.abs\<close>.\<close>

fun jsneg :: "jsnum \<Rightarrow> jsnum" where
  "jsneg NaN = NaN"
| "jsneg PInf = NInf"
| "jsneg NInf = PInf"
| "jsneg (Fin a) = Fin (- a)"

fun Math_abs :: "jsnum \<Rightarrow> jsnum" where
  "Math_abs NaN = NaN"
| "Math_abs PInf = PInf"
| "Math_abs NInf = PInf"
| "Math_abs (Fin a) = Fin \<bar>a\<bar>"

subsection \<open>\<^verbatim>\<open>parseFloat\<close>\<close>

text \<open>
  \<^verbatim>\<open>parseFloat(string)\<close> skips leading white space, reads the longest prefix that is a
  decimal literal (an optional sign, then \<^verbatim>\<open>Infinity\<close>, or digits with an optional
  fraction and an optional exponent, or a fraction that starts with the point) and ignores
  what follows; with no such prefix the result is NaN. The value of the literal is taken
  exactly.
\<close>

definition is_digit :: "char \<Rightarrow> bool" where
  "is_digit c = (c \<in> set ''0123456789'')"

definition decimal_value :: "string \<Rightarrow> nat" where
  "decimal_value s = foldl (\<lambda>n c. 10 * n + (of_char c - 48)) 0 s"

definition is_whitespace :: "char \<Rightarrow> bool" where
  "is_whitespace c =
     (c \<in> set [CHR 0x09, CHR 0x0A, CHR 0x0B, CHR 0x0C, CHR 0x0D, CHR 0x20, CHR 0xA0])"

definition pow10 :: "int \<Rightarrow> rat" where
  "pow10 e = (if 0 \<le> e then 10 ^ nat e else 1 / 10 ^ nat (- e))"

text \<open>
  The exponent part at the head of a string: \<^verbatim>\<open>e\<close> or \<^verbatim>\<open>E\<close>, an optional sign and at
  least one digit. When the digits are missing there is no exponent part, and the value
  read is 0, which leaves the mantissa as it is.
\<close>

definition exponent_part :: "string \<Rightarrow> int" where
  "exponent_part s =
     (if s \<noteq> [] \<and> (hd s = CHR ''e'' \<or> hd s = CHR ''E'') then
        (let t = tl s in
         if t \<noteq> [] \<and> hd t = CHR ''-'' then - int (decimal_value (takeWhile is_digit (tl t)))
         else if t \<noteq> [] \<and> hd t = CHR ''+'' then int (decimal_value (takeWhile is_digit (tl t)))
         else int (decimal_value (takeWhile is_digit t)))
      else 0)"

definition unsigned_literal :: "string \<Rightarrow> jsnum option" where
  "unsigned_literal s =
     (if take 8 s = ''Infinity'' then Some PInf
      else
        let ip = takeWhile is_digit s;
            r = dropWhile is_digit s;
            dot = (r \<noteq> [] \<and> hd r = CHR ''.'');
            fp = (if dot then takeWhile is_digit (tl r) else []);
            rest = (if dot then dropWhile is_digit (tl r) else r)
        in if ip = [] \<and> fp = [] then None
           else Some (Fin ((of_nat (decimal_value ip)
                             + of_nat (decimal_value fp) / 10 ^ length fp)
                           * pow10 (exponent_part rest))))"

definition parseFloat :: "string \<Rightarrow> jsnum" where
  "parseFloat inputString =
     (let trimmed = dropWhile is_whitespace inputString in
      if trimmed \<noteq> [] \<and> hd trimmed = CHR ''-'' then
        (case unsigned_literal (tl trimmed) of None \<Rightarrow> NaN | Some v \<Rightarrow> jsneg v)
      else if trimmed \<noteq> [] \<and> hd trimmed = CHR ''+'' then
        (case unsigned_literal (tl trimmed) of None \<Rightarrow> NaN | Some v \<Rightarrow> v)
      else (case unsigned_literal trimmed of None \<Rightarrow> NaN | Some v \<Rightarrow> v))"

subsection \<open>Transactions and the totals\<close>

text \<open>
  A ledger entry is the object \<^verbatim>\<open>{ description, amount, category }\<close>. The description of
  an imported entry is whatever the CSV row holds under that name, which may be nothing
  (\<^verbatim>\<open>undefined\<close>, here \<open>None\<close>).
\<close>

record transaction =
  description :: "string option"
  amount :: jsnum
  category :: string

text \<open>
  \<^verbatim>\<open>income = transactions.filter((tx) => tx.amount > 0).reduce((acc, tx) => acc + tx.amount, 0)\<close>,
  \<^verbatim>\<open>expenses\<close> likewise with \<^verbatim>\<open>tx.amount < 0\<close>, and \<^verbatim>\<open>balance = income + expenses\<close>.
\<close>

definition income :: "transaction list \<Rightarrow> jsnum" where
  "income txs =
     foldl (\<lambda>acc tx. jsadd acc (amount tx)) (Fin 0)
       (filter (\<lambda>tx. jsgt (amount tx) (Fin 0)) txs)"

definition expenses :: "transaction list \<Rightarrow> jsnum" where
  "expenses txs =
     foldl (\<lambda>acc tx. jsadd acc (amount tx)) (Fin 0)
       (filter (\<lambda>tx. jslt (amount tx) (Fin 0)) txs)"

definition balance :: "transaction list \<Rightarrow> jsnum" where
  "balance txs = jsadd (income txs) (expenses txs)"

subsection \<open>The breakdown by category\<close>

text \<open>
  \<^verbatim>\<open>expenseByCategory\<close> is built by a \<^verbatim>\<open>reduce\<close> over the negative-amount entries that
  starts from the object literal \<^verbatim>\<open>{}\<close> and uses the category as property name:
  \<^verbatim>\<open>if (acc[tx.category]) acc[tx.category] += Math.abs(tx.amount);
  else acc[tx.category] = Math.abs(tx.amount);\<close>

  An object literal inherits from \<^verbatim>\<open>Object.prototype\<close>, so reading \<^verbatim>\<open>acc[key]\<close> finds the
  object's own property, or else the inherited one when \<open>key\<close> is one of the names below,
  or else \<^verbatim>\<open>undefined\<close>. The values that can appear are: \<^verbatim>\<open>undefined\<close>; a Number; the
  inherited value under a name (a function object, or the prototype itself for
  \<^verbatim>\<open>__proto__\<close>); and the string that \<^verbatim>\<open>+\<close> makes from a non-number and a Number by
  concatenation (kept as the pair of its two operands).
\<close>

datatype jsval = Undefined | Num jsnum | Proto string | Cat jsval jsnum

type_synonym jsobject = "(string \<times> jsval) list"

definition Object_prototype_names :: "string list" where
  "Object_prototype_names =
     [''constructor'', ''__defineGetter__'', ''__defineSetter__'', ''hasOwnProperty'',
      ''__lookupGetter__'', ''__lookupSetter__'', ''isPrototypeOf'',
      ''propertyIsEnumerable'', ''toString'', ''valueOf'', ''__proto__'',
      ''toLocaleString'']"

text \<open>Reading \<^verbatim>\<open>obj[key]\<close>. The own properties are kept in insertion order.\<close>

definition get_property :: "jsobject \<Rightarrow> string \<Rightarrow> jsval" where
  "get_property obj key =
     (case map_of obj key of
        Some v \<Rightarrow> v
      | None \<Rightarrow> if key \<in> set Object_prototype_names then Proto key else Undefined)"

text \<open>
  Writing \<^verbatim>\<open>obj[key] = v\<close> for a primitive \<open>v\<close>: an own property is replaced in place or
  added last. The name \<^verbatim>\<open>__proto__\<close> is an accessor of the prototype whose setter ignores a
  primitive, so that write changes nothing.
\<close>

definition set_property :: "jsobject \<Rightarrow> string \<Rightarrow> jsval \<Rightarrow> jsobject" where
  "set_property obj key v = (if key = ''__proto__'' then obj else AList.update key v obj)"

text \<open>The truth value that \<^verbatim>\<open>if (...)\<close> gives a value.\<close>

fun truthy :: "jsval \<Rightarrow> bool" where
  "truthy Undefined = False"
| "truthy (Num n) = (n \<noteq> NaN \<and> n \<noteq> Fin 0)"
| "truthy (Proto key) = True"
| "truthy (Cat v n) = True"

text \<open>The operator \<^verbatim>\<open>+\<close> with a Number on the right, as \<^verbatim>\<open>+=\<close> applies it.\<close>

fun js_plus :: "jsval \<Rightarrow> jsnum \<Rightarrow> jsval" where
  "js_plus Undefined n = Num NaN"
| "js_plus (Num a) n = Num (jsadd a n)"
| "js_plus (Proto key) n = Cat (Proto key) n"
| "js_plus (Cat v m) n = Cat (Cat v m) n"

text \<open>The body of the reducer.\<close>

definition add_expense :: "jsobject \<Rightarrow> transaction \<Rightarrow> jsobject" where
  "add_expense acc tx =
     (if truthy (get_property acc (category tx))
      then set_property acc (category tx)
             (js_plus (get_property acc (category tx)) (Math_abs (amount tx)))
      else set_property acc (category tx) (Num (Math_abs (amount tx))))"

definition expenseByCategory :: "transaction list \<Rightarrow> jsobject" where
  "expenseByCategory txs =
     foldl add_expense [] (filter (\<lambda>tx. jslt (amount tx) (Fin 0)) txs)"

text \<open>
  \<^verbatim>\<open>Object.keys\<close> lists the own property names: first those that are array indices
  (canonical decimal numerals below \<open>2^32 - 1\<close>) in ascending numeric order, then the other
  names in insertion order.
\<close>

definition is_array_index :: "string \<Rightarrow> bool" where
  "is_array_index s =
     (s \<noteq> [] \<and> list_all is_digit s \<and> (s = ''0'' \<or> hd s \<noteq> CHR ''0'')
      \<and> decimal_value s < 2 ^ 32 - 1)"

definition Object_keys :: "jsobject \<Rightarrow> string list" where
  "Object_keys obj =
     sort_key decimal_value (filter is_array_index (map fst obj))
     @ filter (\<lambda>key. \<not> is_array_index key) (map fst obj)"

text \<open>
  \<^verbatim>\<open>chartData = Object.keys(expenseByCategory).map((key) =>
  ({ name: key, value: expenseByCategory[key] }))\<close>. The field \<^verbatim>\<open>value\<close> is called \<open>val\<close>
  here.
\<close>

record chart_entry =
  name :: string
  val :: jsval

definition chartData :: "transaction list \<Rightarrow> chart_entry list" where
  "chartData txs =
     map (\<lambda>key. \<lparr>name = key, val = get_property (expenseByCategory txs) key\<rparr>)
       (Object_keys (expenseByCategory txs))"

subsection \<open>CSV import\<close>

text \<open>
  \<^verbatim>\<open>Papa.parse(file, { header: true, complete })\<close> belongs to the papaparse library. With
  \<^verbatim>\<open>header: true\<close> it hands \<^verbatim>\<open>complete\<close> one object per data row, whose properties are
  the header names and whose values are strings; a name that the header or the row lacks
  reads as \<^verbatim>\<open>undefined\<close>. A row is therefore a partial map from names to strings, and the
  list of rows (\<^verbatim>\<open>results.data\<close>) is an input of the model.

  The callback maps each row to
  \<^verbatim>\<open>{ description: tx.description, amount: parseFloat(tx.amount),
  category: tx.category || "Other" }\<close>; \<^verbatim>\<open>parseFloat\<close> first turns a missing amount into
  the string \<^verbatim>\<open>undefined\<close>.
\<close>

type_synonym csv_row = "string \<rightharpoonup> string"

definition import_row :: "csv_row \<Rightarrow> transaction" where
  "import_row tx =
     \<lparr>description = tx ''description'',
      amount = parseFloat (case tx ''amount'' of None \<Rightarrow> ''undefined'' | Some a \<Rightarrow> a),
      category = (case tx ''category'' of None \<Rightarrow> ''Other''
                  | Some c \<Rightarrow> if c = [] then ''Other'' else c)\<rparr>"

text \<open>
  \<^verbatim>\<open>Array.prototype.filter\<close> with a predicate on the element and its index, as the delete
  handler uses it.
\<close>

fun filter_from :: "nat \<Rightarrow> ('a \<Rightarrow> nat \<Rightarrow> bool) \<Rightarrow> 'a list \<Rightarrow> 'a list" where
  "filter_from i p [] = []"
| "filter_from i p (x # xs) =
     (if p x i then x # filter_from (Suc i) p xs else filter_from (Suc i) p xs)"

definition Array_filter :: "('a \<Rightarrow> nat \<Rightarrow> bool) \<Rightarrow> 'a list \<Rightarrow> 'a list" where
  "Array_filter p xs = filter_from 0 p xs"

subsection \<open>Component state and handlers\<close>

text \<open>
  The \<^verbatim>\<open>useState\<close> variables of \<^verbatim>\<open>Home\<close>, and the browser's \<^verbatim>\<open>localStorage\<close> that its
  effects write. The form variables \<^verbatim>\<open>description\<close>, \<^verbatim>\<open>amount\<close> and \<^verbatim>\<open>category\<close> carry
  the suffix \<open>_input\<close>, the plain names being the fields of a transaction.
\<close>

record state =
  transactions :: "transaction list"
  description_input :: string
  amount_input :: string
  category_input :: string
  darkMode :: bool
  localStorage :: "string \<rightharpoonup> string"

text \<open>The initial values given to \<^verbatim>\<open>useState\<close>.\<close>

definition initial_state :: "(string \<rightharpoonup> string) \<Rightarrow> state" where
  "initial_state storage =
     \<lparr>transactions = [], description_input = [], amount_input = [],
      category_input = ''Other'', darkMode = False, localStorage = storage\<rparr>"

text \<open>
  \<^verbatim>\<open>if (!description || !amount) return;
  setTransactions([...transactions, { description, amount: parseFloat(amount), category }]);
  setDescription(""); setAmount(""); setCategory("Other");\<close>
  Both form values are strings, so each negation holds exactly for the empty string.
\<close>

definition handleAddTransaction :: "state \<Rightarrow> state" where
  "handleAddTransaction s =
     (if description_input s = [] \<or> amount_input s = [] then s
      else s\<lparr>transactions :=
                 transactions s @
                 [\<lparr>description = Some (description_input s),
                   amount = parseFloat (amount_input s),
                   category = category_input s\<rparr>],
               description_input := [],
               amount_input := [],
               category_input := ''Other''\<rparr>)"

text \<open>\<^verbatim>\<open>setTransactions(transactions.filter((_, i) => i !== index))\<close>.\<close>

definition handleDeleteTransaction :: "int \<Rightarrow> state \<Rightarrow> state" where
  "handleDeleteTransaction index s =
     s\<lparr>transactions := Array_filter (\<lambda>_ i. int i \<noteq> index) (transactions s)\<rparr>"

text \<open>
  \<^verbatim>\<open>handleImportCSV\<close> returns at once when no file was chosen (\<open>None\<close>); otherwise the
  argument is the list of rows that the parser hands to \<^verbatim>\<open>complete\<close> for the chosen file.
\<close>

definition handleImportCSV :: "csv_row list option \<Rightarrow> state \<Rightarrow> state" where
  "handleImportCSV file s =
     (case file of
        None \<Rightarrow> s
      | Some results_data \<Rightarrow> s\<lparr>transactions := map import_row results_data\<rparr>)"

text \<open>
  \<^verbatim>\<open>handleExportCSV\<close> hands \<^verbatim>\<open>Papa.unparse(transactions)\<close> to the browser as a download
  and sets no state.
\<close>

definition handleExportCSV :: "state \<Rightarrow> state" where
  "handleExportCSV s = s"

definition toggleDarkMode :: "state \<Rightarrow> state" where
  "toggleDarkMode s = s\<lparr>darkMode := \<not> darkMode s\<rparr>"

subsection \<open>CSV export read back\<close>

text \<open>
  The text of a Number, as \<^verbatim>\<open>String\<close> gives it and as a CSV field holds it. The decimal
  rendering of a finite Number is the parameter \<open>Number_toString\<close>, as in \<^verbatim>\<open>JSON.stringify\<close>
  below.
\<close>

definition String_of_number :: "(rat \<Rightarrow> string) \<Rightarrow> jsnum \<Rightarrow> string" where
  "String_of_number Number_toString n =
     (case n of
        NaN \<Rightarrow> ''NaN''
      | PInf \<Rightarrow> ''Infinity''
      | NInf \<Rightarrow> ''-Infinity''
      | Fin q \<Rightarrow> Number_toString q)"

text \<open>
  Modelled from the spec: the CSV writer \<^verbatim>\<open>Papa.unparse\<close> and the CSV reader
  \<^verbatim>\<open>Papa.parse\<close> of the papaparse library, which the export and import handlers call and
  which are not among the sources. The spec gives the CSV format as the header row
  \<^verbatim>\<open>description,amount,category\<close> and one data row per transaction, written by the export
  in this shape verbatim and read by the import under the same header names. So the rows
  that the reader hands back for the text written from a ledger are, one per transaction and
  in the ledger's order, the three fields as text under the three header names; a
  description that is \<^verbatim>\<open>undefined\<close> has no text and is the empty field.
\<close>

definition exported_row :: "(rat \<Rightarrow> string) \<Rightarrow> transaction \<Rightarrow> csv_row" where
  "exported_row Number_toString tx =
     [''description'' \<mapsto> (case description tx of None \<Rightarrow> [] | Some d \<Rightarrow> d),
      ''amount'' \<mapsto> String_of_number Number_toString (amount tx),
      ''category'' \<mapsto> category tx]"

definition exported_rows :: "(rat \<Rightarrow> string) \<Rightarrow> transaction list \<Rightarrow> csv_row list" where
  "exported_rows Number_toString txs = map (exported_row Number_toString) txs"

subsection \<open>Persistence\<close>

text \<open>
  \<^verbatim>\<open>JSON.stringify(transactions)\<close>: an array of objects whose properties come in the order
  of the object literal; a property whose value is \<^verbatim>\<open>undefined\<close> is left out; NaN and the
  infinities are written \<^verbatim>\<open>null\<close>. The decimal rendering of a finite Number is a parameter
  (\<open>Number_toString\<close>). In a string the quote, the backslash and the control characters are
  escaped.
\<close>

definition hex_digit :: "nat \<Rightarrow> char" where
  "hex_digit n = ''0123456789abcdef'' ! (n mod 16)"

definition quote_char :: "char \<Rightarrow> string" where
  "quote_char c =
     (if c = CHR 0x08 then [CHR 0x5C, CHR ''b'']
      else if c = CHR 0x09 then [CHR 0x5C, CHR ''t'']
      else if c = CHR 0x0A then [CHR 0x5C, CHR ''n'']
      else if c = CHR 0x0C then [CHR 0x5C, CHR ''f'']
      else if c = CHR 0x0D then [CHR 0x5C, CHR ''r'']
      else if c = CHR 0x22 then [CHR 0x5C, CHR 0x22]
      else if c = CHR 0x5C then [CHR 0x5C, CHR 0x5C]
      else if (of_char c :: nat) < 32 then
        [CHR 0x5C, CHR ''u'', CHR ''0'', CHR ''0'',
         hex_digit (of_char c div 16), hex_digit (of_char c)]
      else [c])"

definition QuoteJSONString :: "string \<Rightarrow> string" where
  "QuoteJSONString s = [CHR 0x22] @ concat (map quote_char s) @ [CHR 0x22]"

definition JSON_number :: "(rat \<Rightarrow> string) \<Rightarrow> jsnum \<Rightarrow> string" where
  "JSON_number Number_toString n =
     (case n of Fin q \<Rightarrow> Number_toString q | _ \<Rightarrow> ''null'')"

definition JSON_transaction :: "(rat \<Rightarrow> string) \<Rightarrow> transaction \<Rightarrow> string" where
  "JSON_transaction Number_toString tx =
     ''{''
     @ (case description tx of
          None \<Rightarrow> []
        | Some d \<Rightarrow> QuoteJSONString ''description'' @ '':'' @ QuoteJSONString d @ '','')
     @ QuoteJSONString ''amount'' @ '':'' @ JSON_number Number_toString (amount tx) @ '',''
     @ QuoteJSONString ''category'' @ '':'' @ QuoteJSONString (category tx)
     @ ''}''"

fun join :: "string \<Rightarrow> string list \<Rightarrow> string" where
  "join sep [] = []"
| "join sep [x] = x"
| "join sep (x # y # ys) = x @ sep @ join sep (y # ys)"

definition JSON_stringify :: "(rat \<Rightarrow> string) \<Rightarrow> transaction list \<Rightarrow> string" where
  "JSON_stringify Number_toString txs =
     ''['' @ join '','' (map (JSON_transaction Number_toString) txs) @ '']''"

text \<open>
  The two saving effects:
  \<^verbatim>\<open>useEffect(() => localStorage.setItem("transactions", JSON.stringify(transactions)),
  [transactions])\<close> and
  \<^verbatim>\<open>useEffect(() => localStorage.setItem("darkMode", darkMode), [darkMode])\<close>.
  \<^verbatim>\<open>setItem\<close> replaces the whole value under its key, and is taken to succeed.
\<close>

definition save_transactions :: "(rat \<Rightarrow> string) \<Rightarrow> state \<Rightarrow> state" where
  "save_transactions Number_toString s =
     s\<lparr>localStorage :=
         (localStorage s)(''transactions'' \<mapsto> JSON_stringify Number_toString (transactions s))\<rparr>"

definition save_darkMode :: "state \<Rightarrow> state" where
  "save_darkMode s =
     s\<lparr>localStorage :=
         (localStorage s)(''darkMode'' \<mapsto> (if darkMode s then ''true'' else ''false''))\<rparr>"

subsection \<open>Events and steps\<close>

text \<open>
  One user action is one step: its handler runs to the end, the component renders again,
  and an effect runs when its dependency was set. An effect depends on the identity of the
  value, and every \<^verbatim>\<open>setTransactions\<close> call of the handlers passes a new array; so the
  saving effect runs exactly after a handler that reaches such a call, which
  \<open>sets_transactions\<close> records for each event.
\<close>

datatype event =
    Submit
  | Delete int
  | Import "csv_row list option"
  | Export
  | ToggleDarkMode
  | ChangeDescription string
  | ChangeAmount string
  | ChangeCategory string

fun handler :: "event \<Rightarrow> state \<Rightarrow> state" where
  "handler Submit s = handleAddTransaction s"
| "handler (Delete index) s = handleDeleteTransaction index s"
| "handler (Import file) s = handleImportCSV file s"
| "handler Export s = handleExportCSV s"
| "handler ToggleDarkMode s = toggleDarkMode s"
| "handler (ChangeDescription v) s = s\<lparr>description_input := v\<rparr>"
| "handler (ChangeAmount v) s = s\<lparr>amount_input := v\<rparr>"
| "handler (ChangeCategory v) s = s\<lparr>category_input := v\<rparr>"

fun sets_transactions :: "event \<Rightarrow> state \<Rightarrow> bool" where
  "sets_transactions Submit s = (\<not> (description_input s = [] \<or> amount_input s = []))"
| "sets_transactions (Delete index) s = True"
| "sets_transactions (Import file) s = (file \<noteq> None)"
| "sets_transactions _ s = False"

fun sets_darkMode :: "event \<Rightarrow> bool" where
  "sets_darkMode ToggleDarkMode = True"
| "sets_darkMode _ = False"

definition step :: "(rat \<Rightarrow> string) \<Rightarrow> event \<Rightarrow> state \<Rightarrow> state" where
  "step Number_toString ev s =
     (let s1 = handler ev s;
          s2 = (if sets_transactions ev s then save_transactions Number_toString s1 else s1)
      in if sets_darkMode ev then save_darkMode s2 else s2)"

definition run :: "(rat \<Rightarrow> string) \<Rightarrow> event list \<Rightarrow> state \<Rightarrow> state" where
  "run Number_toString evs s = foldl (\<lambda>s ev. step Number_toString ev s) s evs"

text \<open>
  Mounting: the loading effect reads the key \<^verbatim>\<open>transactions\<close> and, when it holds a
  non-empty string, sets the ledger to \<^verbatim>\<open>JSON.parse\<close> of it; it sets dark mode when the
  key \<^verbatim>\<open>darkMode\<close> holds \<^verbatim>\<open>true\<close>. The saving effects then write both keys for the
  values so set. \<^verbatim>\<open>JSON.parse\<close> is a parameter; it gives \<open>None\<close> when it throws or when
  what it returns is not a list of transactions, and then the component does not come up.
\<close>

definition mount ::
  "(string \<Rightarrow> transaction list option) \<Rightarrow> (rat \<Rightarrow> string) \<Rightarrow> (string \<rightharpoonup> string)
   \<Rightarrow> state option" where
  "mount JSON_parse Number_toString storage =
     (case (case storage ''transactions'' of
              None \<Rightarrow> Some []
            | Some savedTransactions \<Rightarrow>
                if savedTransactions = [] then Some [] else JSON_parse savedTransactions) of
        None \<Rightarrow> None
      | Some txs \<Rightarrow>
          Some (save_darkMode (save_transactions Number_toString
            ((initial_state storage)
               \<lparr>transactions := txs, darkMode := (storage ''darkMode'' = Some ''true'')\<rparr>))))"

inductive reachable ::
  "(string \<Rightarrow> transaction list option) \<Rightarrow> (rat \<Rightarrow> string) \<Rightarrow> state \<Rightarrow> bool"
  for JSON_parse Number_toString where
    mounted: "mount JSON_parse Number_toString storage = Some s \<Longrightarrow>
              reachable JSON_parse Number_toString s"
  | stepped: "reachable JSON_parse Number_toString s \<Longrightarrow>
              reachable JSON_parse Number_toString (step Number_toString ev s)"

subsection \<open>Example data\<close>

definition coffee :: transaction where
  "coffee = \<lparr>description = Some ''Coffee'', amount = Fin (- 9 / 2), category = ''Food''\<rparr>"

definition paycheck :: transaction where
  "paycheck = \<lparr>description = Some ''Paycheck'', amount = Fin 2000, category = ''Salary''\<rparr>"

definition rent :: transaction where
  "rent = \<lparr>description = Some ''Rent'', amount = Fin (- 800), category = ''Rent''\<rparr>"

definition example_state :: state where
  "example_state =
     \<lparr>transactions = [coffee, paycheck, rent], description_input = ''Bus'',
      amount_input = ''-12.5'', category_input = ''Transport'', darkMode = False,
      localStorage = Map.empty\<rparr>"

definition example_rows :: "csv_row list" where
  "example_rows =
     [[''description'' \<mapsto> ''Lunch'', ''amount'' \<mapsto> ''-7.25'', ''category'' \<mapsto> ''Food''],
      [''description'' \<mapsto> ''Refund'', ''amount'' \<mapsto> ''abc'', ''category'' \<mapsto> '''']]"

definition example_mounted :: state where
  "example_mounted = save_darkMode (save_transactions (\<lambda>_. ''0'') (initial_state Map.empty))"

definition example_Number_toString :: "rat \<Rightarrow> string" where
  "example_Number_toString q =
     (if q = - 9 / 2 then ''-4.5'' else if q = 2000 then ''2000''
      else if q = 5 then ''5'' else ''0'')"

definition nameless :: transaction where
  "nameless = \<lparr>description = None, amount = Fin 5, category = ''Food''\<rparr>"

definition uncategorised :: transaction where
  "uncategorised = \<lparr>description = Some ''Tea'', amount = Fin 5, category = []\<rparr>"

definition coffee_paycheck_events :: "event list" where
  "coffee_paycheck_events =
     [ChangeDescription ''Coffee'', ChangeAmount ''-4.50'', ChangeCategory ''Food'', Submit,
      ChangeDescription ''Paycheck'', ChangeAmount ''2000'', ChangeCategory ''Salary'', Submit]"

section \<open>Properties\<close>

subsection \<open>Signs of the totals\<close>

text \<open>
  The sign of a total rests on one fact about \<^verbatim>\<open>+\<close>: the sum of two numbers that are not
  negative is not negative, and likewise for numbers that are not positive. Rounding a
  finite sum, or taking it to an infinity, keeps that.
\<close>

lemma jsgt_zero_cases: "jsgt a (Fin 0) \<longleftrightarrow> a = PInf \<or> (\<exists>q. a = Fin q \<and> 0 < q)"
  by (cases a) (auto simp: jsgt_def)

lemma jslt_zero_cases: "jslt a (Fin 0) \<longleftrightarrow> a = NInf \<or> (\<exists>q. a = Fin q \<and> q < 0)"
  by (cases a) auto

lemma jsge_zero_cases: "jsge a (Fin 0) \<longleftrightarrow> a = PInf \<or> (\<exists>q. a = Fin q \<and> 0 \<le> q)"
  by (cases a) (auto simp: jsge_def jsle_def)

lemma jsle_zero_cases: "jsle a (Fin 0) \<longleftrightarrow> a = NInf \<or> (\<exists>q. a = Fin q \<and> q \<le> 0)"
  by (cases a) (auto simp: jsle_def)

lemma sum_positive_nonneg:
  "jsge acc (Fin 0) \<Longrightarrow> \<forall>tx \<in> set txs. jsgt (amount tx) (Fin 0) \<Longrightarrow>
   jsge (foldl (\<lambda>acc tx. jsadd acc (amount tx)) acc txs) (Fin 0)"
proof (induction txs arbitrary: acc)
  case Nil
  then show ?case by simp
next
  case (Cons tx txs)
  from Cons.prems have "jsge (jsadd acc (amount tx)) (Fin 0)"
    by (auto simp: jsge_zero_cases jsgt_zero_cases)
  with Cons show ?case by simp
qed

lemma sum_negative_nonpos:
  "jsle acc (Fin 0) \<Longrightarrow> \<forall>tx \<in> set txs. jslt (amount tx) (Fin 0) \<Longrightarrow>
   jsle (foldl (\<lambda>acc tx. jsadd acc (amount tx)) acc txs) (Fin 0)"
proof (induction txs arbitrary: acc)
  case Nil
  then show ?case by simp
next
  case (Cons tx txs)
  from Cons.prems have "jsle (jsadd acc (amount tx)) (Fin 0)"
    by (auto simp: jsle_zero_cases jslt_zero_cases)
  with Cons show ?case by simp
qed

lemma income_nonneg: "jsge (income txs) (Fin 0)"
  unfolding income_def by (rule sum_positive_nonneg) (simp_all add: jsge_def jsle_def)

lemma expenses_nonpos: "jsle (expenses txs) (Fin 0)"
  unfolding expenses_def by (rule sum_negative_nonpos) (simp_all add: jsle_def)

lemma foldl_amounts:
  "foldl (\<lambda>acc tx. jsadd acc (amount tx)) acc (filter (\<lambda>tx. p (amount tx)) txs)
     = foldl jsadd acc (filter p (map amount txs))"
  by (induction txs arbitrary: acc) simp_all

text \<open>
  C1. For every ledger the balance is income plus expenses, where the income is the sum of
  the strictly positive amounts and satisfies \<^verbatim>\<open>income >= 0\<close>, and the expenses are the sum
  of the strictly negative amounts, kept negative, and satisfy \<^verbatim>\<open>expenses <= 0\<close>. The
  sums add the amounts from 0 in the order of the ledger.
\<close>

theorem balance_income_expenses:
  "balance ledger = jsadd (income ledger) (expenses ledger)
   \<and> jsge (income ledger) (Fin 0)
   \<and> jsle (expenses ledger) (Fin 0)
   \<and> income ledger
       = foldl jsadd (Fin 0) (filter (\<lambda>a. jsgt a (Fin 0)) (map amount ledger))
   \<and> expenses ledger
       = foldl jsadd (Fin 0) (filter (\<lambda>a. jslt a (Fin 0)) (map amount ledger))"
proof -
  have "income ledger
      = foldl jsadd (Fin 0) (filter (\<lambda>a. jsgt a (Fin 0)) (map amount ledger))"
    unfolding income_def by (rule foldl_amounts)
  moreover have "expenses ledger
      = foldl jsadd (Fin 0) (filter (\<lambda>a. jslt a (Fin 0)) (map amount ledger))"
    unfolding expenses_def by (rule foldl_amounts)
  moreover note income_nonneg [of ledger] expenses_nonpos [of ledger]
  ultimately show ?thesis by (simp add: balance_def)
qed

subsection \<open>An amount that is not a number\<close>

lemma parseFloat_abc: "parseFloat ''abc'' = NaN"
  by (simp add: parseFloat_def unsigned_literal_def is_whitespace_def is_digit_def)

lemma parseFloat_lunch: "parseFloat ''-7.25'' = Fin (- 29 / 4)"
  by (simp add: parseFloat_def unsigned_literal_def exponent_part_def pow10_def
      is_whitespace_def is_digit_def decimal_value_def)

lemma import_example_rows:
  "transactions (handleImportCSV (Some example_rows) s) =
     [\<lparr>description = Some ''Lunch'', amount = Fin (- 29 / 4), category = ''Food''\<rparr>,
      \<lparr>description = Some ''Refund'', amount = NaN, category = ''Other''\<rparr>]"
  by (simp add: handleImportCSV_def example_rows_def import_row_def parseFloat_abc
      parseFloat_lunch)

text \<open>
  The claim C7, that a NaN amount makes the totals NaN, fails: importing the two example
  rows, the second with the amount text \<^verbatim>\<open>abc\<close>, gives a ledger whose second amount is NaN
  and whose totals are ordinary numbers.
\<close>

theorem nan_totals_counterexample:
  "amount (transactions (handleImportCSV (Some example_rows) (initial_state Map.empty)) ! 1) = NaN
   \<and> income (transactions (handleImportCSV (Some example_rows) (initial_state Map.empty))) = Fin 0
   \<and> expenses (transactions (handleImportCSV (Some example_rows) (initial_state Map.empty)))
       = Fin (- 29 / 4)
   \<and> balance (transactions (handleImportCSV (Some example_rows) (initial_state Map.empty)))
       = Fin (- 29 / 4)"
  by (simp add: import_example_rows income_def expenses_def balance_def jsgt_def)

lemma filter_not_NaN_positive:
  "filter (\<lambda>tx. jsgt (amount tx) (Fin 0)) (filter (\<lambda>tx. amount tx \<noteq> NaN) txs)
     = filter (\<lambda>tx. jsgt (amount tx) (Fin 0)) txs"
  by (induction txs) (auto simp: jsgt_def)

lemma filter_not_NaN_negative:
  "filter (\<lambda>tx. jslt (amount tx) (Fin 0)) (filter (\<lambda>tx. amount tx \<noteq> NaN) txs)
     = filter (\<lambda>tx. jslt (amount tx) (Fin 0)) txs"
  by (induction txs) auto

text \<open>
  C7, as the code has it. Both filters (\<^verbatim>\<open>tx.amount > 0\<close> and \<^verbatim>\<open>tx.amount < 0\<close>) reject a
  NaN amount, so it reaches no total: for every ledger, income and expenses are not NaN,
  and income, expenses and balance are those of the ledger without its NaN entries.
\<close>

theorem nan_amount_reaches_no_total:
  "income ledger \<noteq> NaN
   \<and> expenses ledger \<noteq> NaN
   \<and> income (filter (\<lambda>tx. amount tx \<noteq> NaN) ledger) = income ledger
   \<and> expenses (filter (\<lambda>tx. amount tx \<noteq> NaN) ledger) = expenses ledger
   \<and> balance (filter (\<lambda>tx. amount tx \<noteq> NaN) ledger) = balance ledger"
proof -
  have "income ledger \<noteq> NaN"
    using income_nonneg [of ledger] by (auto simp: jsge_zero_cases)
  moreover have "expenses ledger \<noteq> NaN"
    using expenses_nonpos [of ledger] by (auto simp: jsle_zero_cases)
  moreover have "income (filter (\<lambda>tx. amount tx \<noteq> NaN) ledger) = income ledger"
    by (simp only: income_def filter_not_NaN_positive)
  moreover have "expenses (filter (\<lambda>tx. amount tx \<noteq> NaN) ledger) = expenses ledger"
    by (simp only: expenses_def filter_not_NaN_negative)
  ultimately show ?thesis by (simp add: balance_def)
qed

subsection \<open>The breakdown by category\<close>

lemma Math_abs_negative: "jslt a (Fin 0) \<Longrightarrow> jsgt (Math_abs a) (Fin 0)"
  by (cases a) (auto simp: jsgt_def)

lemma jsadd_positive: "jsgt a (Fin 0) \<Longrightarrow> jsgt b (Fin 0) \<Longrightarrow> jsgt (jsadd a b) (Fin 0)"
  by (auto simp: jsgt_zero_cases)

lemma truthy_positive: "jsgt n (Fin 0) \<Longrightarrow> truthy (Num n)"
  by (auto simp: jsgt_zero_cases)

lemma jsadd_zero_left: "jsadd (Fin 0) a = a"
  by (cases a) auto

lemma proto_not_inherited: "c \<notin> set Object_prototype_names \<Longrightarrow> c \<noteq> ''__proto__''"
  by (auto simp: Object_prototype_names_def)

lemma add_expense_other:
  "category tx \<noteq> c \<Longrightarrow> map_of (add_expense acc tx) c = map_of acc c"
  by (simp add: add_expense_def set_property_def update_conv')

lemma add_expense_first:
  assumes "c \<notin> set Object_prototype_names" "map_of acc c = None" "category tx = c"
  shows "map_of (add_expense acc tx) c = Some (Num (Math_abs (amount tx)))"
  using assms proto_not_inherited [OF assms(1)]
  by (simp add: add_expense_def set_property_def get_property_def update_conv')

lemma add_expense_next:
  assumes "c \<notin> set Object_prototype_names" "map_of acc c = Some (Num n)" "jsgt n (Fin 0)"
    "category tx = c"
  shows "map_of (add_expense acc tx) c = Some (Num (jsadd n (Math_abs (amount tx))))"
  using assms proto_not_inherited [OF assms(1)] truthy_positive [OF assms(3)]
  by (simp add: add_expense_def set_property_def get_property_def update_conv')

lemma foldl_add_expense_next:
  assumes "c \<notin> set Object_prototype_names"
  shows "\<forall>tx \<in> set txs. jslt (amount tx) (Fin 0) \<Longrightarrow> map_of acc c = Some (Num n) \<Longrightarrow>
         jsgt n (Fin 0) \<Longrightarrow>
         map_of (foldl add_expense acc txs) c =
           Some (Num (foldl jsadd n (map (\<lambda>tx. Math_abs (amount tx))
                  (filter (\<lambda>tx. category tx = c) txs))))"
proof (induction txs arbitrary: acc n)
  case Nil
  then show ?case by simp
next
  case (Cons tx txs)
  show ?case
  proof (cases "category tx = c")
    case True
    have abs_pos: "jsgt (Math_abs (amount tx)) (Fin 0)"
      using Cons.prems(1) by (simp add: Math_abs_negative)
    have "map_of (add_expense acc tx) c = Some (Num (jsadd n (Math_abs (amount tx))))"
      using assms Cons.prems(2,3) True by (rule add_expense_next)
    moreover have "jsgt (jsadd n (Math_abs (amount tx))) (Fin 0)"
      using Cons.prems(3) abs_pos by (rule jsadd_positive)
    ultimately show ?thesis
      using Cons.IH [of "add_expense acc tx" "jsadd n (Math_abs (amount tx))"] Cons.prems(1) True
      by simp
  next
    case False
    then have "map_of (add_expense acc tx) c = Some (Num n)"
      using Cons.prems(2) by (simp add: add_expense_other)
    then show ?thesis
      using Cons.IH [of "add_expense acc tx" n] Cons.prems(1,3) False by simp
  qed
qed

lemma foldl_add_expense_first:
  assumes "c \<notin> set Object_prototype_names"
  shows "\<forall>tx \<in> set txs. jslt (amount tx) (Fin 0) \<Longrightarrow> map_of acc c = None \<Longrightarrow>
         map_of (foldl add_expense acc txs) c =
           (if filter (\<lambda>tx. category tx = c) txs = [] then None
            else Some (Num (foldl jsadd (Fin 0) (map (\<lambda>tx. Math_abs (amount tx))
                  (filter (\<lambda>tx. category tx = c) txs)))))"
proof (induction txs arbitrary: acc)
  case Nil
  then show ?case by simp
next
  case (Cons tx txs)
  show ?case
  proof (cases "category tx = c")
    case True
    have abs_pos: "jsgt (Math_abs (amount tx)) (Fin 0)"
      using Cons.prems(1) by (simp add: Math_abs_negative)
    have "map_of (add_expense acc tx) c = Some (Num (Math_abs (amount tx)))"
      using assms Cons.prems(2) True by (rule add_expense_first)
    then have "map_of (foldl add_expense (add_expense acc tx) txs) c =
        Some (Num (foldl jsadd (Math_abs (amount tx)) (map (\<lambda>tx. Math_abs (amount tx))
                  (filter (\<lambda>tx. category tx = c) txs))))"
      using foldl_add_expense_next [OF assms, of txs "add_expense acc tx"] Cons.prems(1) abs_pos
      by simp
    then show ?thesis using True by (simp add: jsadd_zero_left)
  next
    case False
    then have "map_of (add_expense acc tx) c = None"
      using Cons.prems(2) by (simp add: add_expense_other)
    then show ?thesis
      using Cons.IH [of "add_expense acc tx"] Cons.prems(1) False by simp
  qed
qed

lemma set_Object_keys: "set (Object_keys obj) = fst ` set obj"
  by (auto simp: Object_keys_def)

lemma chartData_lookup:
  "map_of (map (\<lambda>e. (name e, val e)) (chartData txs)) c = map_of (expenseByCategory txs) c"
proof -
  let ?obj = "expenseByCategory txs"
  have "map (\<lambda>e. (name e, val e)) (chartData txs)
        = map (\<lambda>key. (key, get_property ?obj key)) (Object_keys ?obj)"
    by (simp add: chartData_def)
  then have "map_of (map (\<lambda>e. (name e, val e)) (chartData txs)) c
        = ((Some \<circ> get_property ?obj) |` set (Object_keys ?obj)) c"
    by (simp add: map_of_map_restrict)
  also have "\<dots> = map_of ?obj c"
  proof (cases "map_of ?obj c")
    case None
    then have "c \<notin> fst ` set ?obj" by (simp add: map_of_eq_None_iff)
    with None show ?thesis by (simp add: set_Object_keys restrict_map_def)
  next
    case (Some v)
    then have "c \<in> fst ` set ?obj" by (metis map_of_eq_None_iff option.distinct(1))
    with Some show ?thesis by (simp add: set_Object_keys restrict_map_def get_property_def)
  qed
  finally show ?thesis .
qed

lemma chartData_value:
  assumes "c \<notin> set Object_prototype_names"
  shows "map_of (map (\<lambda>e. (name e, val e)) (chartData ledger)) c =
    (if filter (\<lambda>tx. jslt (amount tx) (Fin 0) \<and> category tx = c) ledger = [] then None
     else Some (Num (foldl jsadd (Fin 0) (map (\<lambda>tx. Math_abs (amount tx))
            (filter (\<lambda>tx. jslt (amount tx) (Fin 0) \<and> category tx = c) ledger)))))"
proof -
  have *: "filter (\<lambda>tx. category tx = c) (filter (\<lambda>tx. jslt (amount tx) (Fin 0)) ledger)
      = filter (\<lambda>tx. jslt (amount tx) (Fin 0) \<and> category tx = c) ledger"
    by (simp add: conj_commute)
  show ?thesis
    unfolding chartData_lookup expenseByCategory_def
    using foldl_add_expense_first [OF assms, of "filter (\<lambda>tx. jslt (amount tx) (Fin 0)) ledger" "[]"]
    by (simp add: *)
qed

lemma keys_add_expense: "fst ` set (add_expense acc tx) \<subseteq> insert (category tx) (fst ` set acc)"
  by (auto simp: add_expense_def set_property_def dom_update)

lemma keys_foldl_add_expense:
  "fst ` set (foldl add_expense acc txs) \<subseteq> fst ` set acc \<union> category ` set txs"
proof (induction txs arbitrary: acc)
  case Nil
  then show ?case by simp
next
  case (Cons tx txs)
  show ?case using Cons.IH [of "add_expense acc tx"] keys_add_expense [of acc tx] by auto
qed

lemma chartData_names:
  "name ` set (chartData ledger)
     \<subseteq> category ` {tx \<in> set ledger. jslt (amount tx) (Fin 0)}"
proof -
  have "name ` set (chartData ledger) = fst ` set (expenseByCategory ledger)"
    by (simp add: chartData_def image_image set_Object_keys)
  then show ?thesis
    using keys_foldl_add_expense [of "[]" "filter (\<lambda>tx. jslt (amount tx) (Fin 0)) ledger"]
    by (simp add: expenseByCategory_def)
qed

text \<open>
  C4. The claim is that, for every ledger and every category \<open>c\<close>, the chart value for \<open>c\<close>
  is the sum of the absolute values of the negative amounts of category \<open>c\<close>, and that a
  category without a negative amount has no chart entry. \<open>chartData_value\<close> and
  \<open>chartData_names\<close> above show this for every category that is not a property name of
  \<^verbatim>\<open>Object.prototype\<close>. For such a name the code does something else: importing one row
  with the amount \<^verbatim>\<open>-4.5\<close> and the category \<^verbatim>\<open>constructor\<close> gives a chart entry whose value
  is not the number 4.5 but the text of the inherited function followed by \<^verbatim>\<open>4.5\<close>, and
  the category \<^verbatim>\<open>__proto__\<close> gives no chart entry at all.
\<close>

theorem chartData_inherited_name:
  "chartData (transactions (handleImportCSV
      (Some [[''description'' \<mapsto> ''Gift'', ''amount'' \<mapsto> ''-4.5'',
              ''category'' \<mapsto> ''constructor'']]) (initial_state storage)))
     = [\<lparr>name = ''constructor'', val = Cat (Proto ''constructor'') (Fin (9 / 2))\<rparr>]
   \<and> chartData (transactions (handleImportCSV
      (Some [[''description'' \<mapsto> ''Gift'', ''amount'' \<mapsto> ''-4.5'',
              ''category'' \<mapsto> ''__proto__'']]) (initial_state storage)))
     = []"
proof -
  have pf: "parseFloat ''-4.5'' = Fin (- 9 / 2)"
    by (simp add: parseFloat_def unsigned_literal_def exponent_part_def pow10_def
        is_whitespace_def is_digit_def decimal_value_def)
  show ?thesis
    by (simp add: handleImportCSV_def import_row_def pf chartData_def expenseByCategory_def
        add_expense_def get_property_def set_property_def Object_prototype_names_def
        Object_keys_def is_array_index_def is_digit_def)
qed

subsection \<open>The scenario of two additions\<close>

lemma parseFloat_coffee: "parseFloat ''-4.50'' = Fin (- 9 / 2)"
  by (simp add: parseFloat_def unsigned_literal_def exponent_part_def pow10_def
      is_whitespace_def is_digit_def decimal_value_def)

lemma parseFloat_paycheck: "parseFloat ''2000'' = Fin 2000"
  by (simp add: parseFloat_def unsigned_literal_def exponent_part_def pow10_def
      is_whitespace_def is_digit_def decimal_value_def)

lemma run_coffee_paycheck:
  "transactions (run f coffee_paycheck_events (initial_state storage)) = [coffee, paycheck]"
  by (simp add: run_def coffee_paycheck_events_def step_def initial_state_def
      handleAddTransaction_def save_transactions_def parseFloat_coffee parseFloat_paycheck
      coffee_def paycheck_def)

text \<open>
  C8. Starting from the empty ledger, entering and submitting Coffee, \<^verbatim>\<open>-4.50\<close>, Food and
  then Paycheck, \<^verbatim>\<open>2000\<close>, Salary gives income 2000, expenses -4.5, balance 1995.5 and the
  chart data \<^verbatim>\<open>[{name: "Food", value: 4.5}]\<close>. (Every number here is a binary fraction, so
  the sums are exact in binary64 as well.)
\<close>

theorem scenario_coffee_paycheck:
  "income (transactions (run f coffee_paycheck_events (initial_state storage))) = Fin 2000
   \<and> expenses (transactions (run f coffee_paycheck_events (initial_state storage)))
       = Fin (- 9 / 2)
   \<and> balance (transactions (run f coffee_paycheck_events (initial_state storage)))
       = Fin (3991 / 2)
   \<and> chartData (transactions (run f coffee_paycheck_events (initial_state storage)))
       = [\<lparr>name = ''Food'', val = Num (Fin (9 / 2))\<rparr>]"
proof -
  have "income [coffee, paycheck] = Fin 2000"
    by (simp add: income_def coffee_def paycheck_def jsgt_def)
  moreover have "expenses [coffee, paycheck] = Fin (- 9 / 2)"
    by (simp add: expenses_def coffee_def paycheck_def)
  moreover have "balance [coffee, paycheck] = Fin (3991 / 2)"
    by (simp add: balance_def income_def expenses_def coffee_def paycheck_def jsgt_def)
  moreover have "chartData [coffee, paycheck] = [\<lparr>name = ''Food'', val = Num (Fin (9 / 2))\<rparr>]"
    by (simp add: chartData_def expenseByCategory_def add_expense_def get_property_def
        set_property_def Object_prototype_names_def Object_keys_def is_array_index_def
        is_digit_def coffee_def paycheck_def)
  ultimately show ?thesis by (simp only: run_coffee_paycheck simp_thms)
qed

subsection \<open>Deleting an entry\<close>

lemma filter_from_skip_index:
  "filter_from k (\<lambda>_ j. int j \<noteq> i) xs =
     (if int k \<le> i \<and> i < int k + int (length xs)
      then take (nat i - k) xs @ drop (Suc (nat i - k)) xs else xs)"
proof (induction xs arbitrary: k)
  case Nil
  then show ?case by simp
next
  case (Cons x xs)
  show ?case
  proof (cases "int k = i")
    case True
    then show ?thesis using Cons.IH [of "Suc k"] by auto
  next
    case False
    show ?thesis
    proof (cases "int k \<le> i \<and> i < int k + int (length (x # xs))")
      case True
      with False have "int (Suc k) \<le> i \<and> i < int (Suc k) + int (length xs)" by auto
      moreover from True False have "nat i - k = Suc (nat i - Suc k)" by auto
      ultimately show ?thesis using True False Cons.IH [of "Suc k"] by simp
    next
      case outside: False
      then have "\<not> (int (Suc k) \<le> i \<and> i < int (Suc k) + int (length xs))" by auto
      then have "filter_from (Suc k) (\<lambda>_ j. int j \<noteq> i) xs = xs"
        by (simp only: Cons.IH [of "Suc k"] if_False)
      with False have "filter_from k (\<lambda>_ j. int j \<noteq> i) (x # xs) = x # xs" by simp
      with outside show ?thesis by (simp only: if_False)
    qed
  qed
qed

text \<open>
  C3. For a ledger of length \<open>n\<close> and an index \<open>i\<close> with \<open>0 \<le> i < n\<close>, deleting removes
  exactly the entry at position \<open>i\<close>: what remains is the entries before \<open>i\<close> followed by
  the entries after \<open>i\<close>, in their order, and the length is \<open>n - 1\<close>.
\<close>

theorem delete_removes_exactly_index:
  assumes "0 \<le> i" "i < int (length (transactions s))"
  shows "transactions (handleDeleteTransaction i s)
           = take (nat i) (transactions s) @ drop (Suc (nat i)) (transactions s)
         \<and> length (transactions (handleDeleteTransaction i s)) = length (transactions s) - 1"
proof -
  have eq: "transactions (handleDeleteTransaction i s)
      = take (nat i) (transactions s) @ drop (Suc (nat i)) (transactions s)"
    using assms
    by (simp add: handleDeleteTransaction_def Array_filter_def filter_from_skip_index)
  have "nat i < length (transactions s)" using assms by simp
  then have "length (take (nat i) (transactions s) @ drop (Suc (nat i)) (transactions s))
      = length (transactions s) - 1"
    by simp
  with eq show ?thesis by simp
qed

theorem delete_removes_exactly_index_witness:
  "transactions (handleDeleteTransaction 1 example_state) = [coffee, rent]
   \<and> length (transactions (handleDeleteTransaction 1 example_state)) = 2"
  using delete_removes_exactly_index [of 1 example_state]
  by (simp add: example_state_def)

text \<open>
  C10. For an index outside the ledger (negative, or at least its length), deleting changes
  nothing: the handler returns the state it was given, and it has no failing branch.
\<close>

theorem delete_out_of_range_noop:
  assumes "i < 0 \<or> int (length (transactions s)) \<le> i"
  shows "handleDeleteTransaction i s = s"
  using assms
  by (auto simp: handleDeleteTransaction_def Array_filter_def filter_from_skip_index)

theorem delete_out_of_range_noop_witness:
  "handleDeleteTransaction 3 example_state = example_state
   \<and> handleDeleteTransaction (- 1) example_state = example_state"
  using delete_out_of_range_noop [of 3 example_state]
    delete_out_of_range_noop [of "- 1" example_state]
  by (simp add: example_state_def)

subsection \<open>Adding an entry\<close>

text \<open>
  C5. When the description or the amount of the form is the empty string, adding changes
  nothing. Otherwise it appends the one entry made of the description, \<^verbatim>\<open>parseFloat\<close> of
  the amount and the category to the end of the ledger, keeps the earlier entries, and
  resets the form (description and amount to the empty string, category to \<^verbatim>\<open>Other\<close>).
\<close>

theorem add_transaction:
  "(description_input s = [] \<or> amount_input s = [] \<longrightarrow> handleAddTransaction s = s)
   \<and> (description_input s \<noteq> [] \<and> amount_input s \<noteq> [] \<longrightarrow>
        handleAddTransaction s =
          s\<lparr>transactions :=
               transactions s @
               [\<lparr>description = Some (description_input s),
                 amount = parseFloat (amount_input s),
                 category = category_input s\<rparr>],
             description_input := [], amount_input := [], category_input := ''Other''\<rparr>)"
  by (simp add: handleAddTransaction_def)

theorem add_transaction_witness:
  "handleAddTransaction (example_state\<lparr>amount_input := []\<rparr>) = example_state\<lparr>amount_input := []\<rparr>
   \<and> handleAddTransaction example_state =
        example_state
          \<lparr>transactions :=
             [coffee, paycheck, rent,
              \<lparr>description = Some ''Bus'', amount = Fin (- 25 / 2), category = ''Transport''\<rparr>],
           description_input := [], amount_input := [], category_input := ''Other''\<rparr>"
proof -
  have pf: "parseFloat ''-12.5'' = Fin (- 25 / 2)"
    by (simp add: parseFloat_def unsigned_literal_def exponent_part_def pow10_def
        is_whitespace_def is_digit_def decimal_value_def)
  show ?thesis
    using add_transaction [of "example_state\<lparr>amount_input := []\<rparr>"]
      add_transaction [of example_state]
    by (simp add: example_state_def pf)
qed

subsection \<open>Importing\<close>

text \<open>
  C6. Importing replaces the ledger by the entries made from the parsed rows, one per row
  and in their order, whatever the ledger was before. Each entry has the row's description,
  \<^verbatim>\<open>parseFloat\<close> of the row's amount (NaN included, nothing is checked) and the row's
  category, or \<^verbatim>\<open>Other\<close> when the category is missing or empty.
\<close>

theorem import_replaces_ledger:
  "transactions (handleImportCSV (Some rows) s) = map import_row rows
   \<and> transactions (handleImportCSV (Some rows) s) = transactions (handleImportCSV (Some rows) s')
   \<and> length (transactions (handleImportCSV (Some rows) s)) = length rows
   \<and> (\<forall>i < length rows.
        description (transactions (handleImportCSV (Some rows) s) ! i) = (rows ! i) ''description''
        \<and> amount (transactions (handleImportCSV (Some rows) s) ! i)
            = parseFloat (case (rows ! i) ''amount'' of None \<Rightarrow> ''undefined'' | Some a \<Rightarrow> a)
        \<and> category (transactions (handleImportCSV (Some rows) s) ! i)
            = (case (rows ! i) ''category'' of None \<Rightarrow> ''Other''
               | Some c \<Rightarrow> if c = [] then ''Other'' else c))"
  by (simp add: handleImportCSV_def import_row_def)

theorem import_replaces_ledger_witness:
  "transactions (handleImportCSV (Some example_rows) example_state)
     = [\<lparr>description = Some ''Lunch'', amount = Fin (- 29 / 4), category = ''Food''\<rparr>,
        \<lparr>description = Some ''Refund'', amount = NaN, category = ''Other''\<rparr>]
   \<and> category (transactions (handleImportCSV (Some example_rows) example_state) ! 1) = ''Other''
   \<and> amount (transactions (handleImportCSV (Some example_rows) example_state) ! 1) = NaN"
  using import_replaces_ledger [of example_rows example_state example_state]
  by (simp add: example_rows_def import_row_def parseFloat_abc parseFloat_lunch)

subsection \<open>Export followed by import\<close>

lemma parseFloat_NaN_text: "parseFloat ''NaN'' = NaN"
  by (simp add: parseFloat_def unsigned_literal_def is_whitespace_def is_digit_def)

lemma parseFloat_Infinity_text: "parseFloat ''Infinity'' = PInf"
  by (simp add: parseFloat_def unsigned_literal_def is_whitespace_def)

lemma parseFloat_minus_Infinity_text: "parseFloat ''-Infinity'' = NInf"
  by (simp add: parseFloat_def unsigned_literal_def is_whitespace_def)

lemma parseFloat_String_of_number:
  assumes "\<forall>q. n = Fin q \<longrightarrow> parseFloat (N q) = Fin q"
  shows "parseFloat (String_of_number N n) = n"
  using assms
  by (cases n)
     (simp_all add: String_of_number_def parseFloat_NaN_text parseFloat_Infinity_text
        parseFloat_minus_Infinity_text)

lemma import_exported_row:
  assumes "\<forall>q. amount tx = Fin q \<longrightarrow> parseFloat (N q) = Fin q"
  shows "import_row (exported_row N tx)
     = tx\<lparr>description := Some (case description tx of None \<Rightarrow> [] | Some d \<Rightarrow> d),
          category := (if category tx = [] then ''Other'' else category tx)\<rparr>"
  using parseFloat_String_of_number [OF assms]
  by (simp add: import_row_def exported_row_def)

lemma import_exported_rows:
  assumes "\<forall>tx \<in> set txs. \<forall>q. amount tx = Fin q \<longrightarrow> parseFloat (N q) = Fin q"
  shows "map import_row (exported_rows N txs)
     = map (\<lambda>tx. tx\<lparr>description := Some (case description tx of None \<Rightarrow> [] | Some d \<Rightarrow> d),
                    category := (if category tx = [] then ''Other'' else category tx)\<rparr>) txs"
  using assms by (simp add: exported_rows_def import_exported_row)

lemma parseFloat_five: "parseFloat ''5'' = Fin 5"
  by (simp add: parseFloat_def unsigned_literal_def exponent_part_def pow10_def
      is_whitespace_def is_digit_def decimal_value_def)

lemma parseFloat_four_and_a_half: "parseFloat ''-4.5'' = Fin (- 9 / 2)"
  by (simp add: parseFloat_def unsigned_literal_def exponent_part_def pow10_def
      is_whitespace_def is_digit_def decimal_value_def)

text \<open>
  The claim C2, that export followed by import reproduces every ledger, fails on two kinds
  of record. A record without description (as the import of a CSV without that column
  makes it) is written with an empty field and comes back with the empty string as its
  description; a record whose category is the empty string comes back with the category
  \<^verbatim>\<open>Other\<close>.
\<close>

theorem round_trip_counterexample:
  "transactions (handleImportCSV (Some (exported_rows example_Number_toString [nameless]))
       (initial_state Map.empty))
     = [\<lparr>description = Some [], amount = Fin 5, category = ''Food''\<rparr>]
   \<and> transactions (handleImportCSV (Some (exported_rows example_Number_toString [nameless]))
       (initial_state Map.empty)) \<noteq> [nameless]
   \<and> transactions (handleImportCSV (Some (exported_rows example_Number_toString [uncategorised]))
       (initial_state Map.empty))
     = [\<lparr>description = Some ''Tea'', amount = Fin 5, category = ''Other''\<rparr>]
   \<and> transactions (handleImportCSV (Some (exported_rows example_Number_toString [uncategorised]))
       (initial_state Map.empty)) \<noteq> [uncategorised]"
  by (simp add: handleImportCSV_def exported_rows_def exported_row_def import_row_def
      String_of_number_def example_Number_toString_def nameless_def uncategorised_def
      parseFloat_five)

text \<open>
  C2, as the code has it. Take a ledger, and let the text written for each of its finite
  amounts be one that \<^verbatim>\<open>parseFloat\<close> reads back to that amount (the numeric formatting).
  Exporting the ledger and importing the rows read back from that CSV text gives a ledger
  of the same length with the same amounts, in which a record without description has the
  empty description and an empty category has become \<^verbatim>\<open>Other\<close>. If every record has a
  description and a category that is not empty, it is the same ledger: the same length,
  descriptions, amounts and categories.
\<close>

theorem export_import_round_trip:
  assumes "\<forall>tx \<in> set ledger. \<forall>q. amount tx = Fin q \<longrightarrow> parseFloat (N q) = Fin q"
  shows "transactions (handleImportCSV (Some (exported_rows N ledger)) (handleExportCSV s))
           = map (\<lambda>tx. tx\<lparr>description :=
                              Some (case description tx of None \<Rightarrow> [] | Some d \<Rightarrow> d),
                            category :=
                              (if category tx = [] then ''Other'' else category tx)\<rparr>) ledger
         \<and> length (transactions
               (handleImportCSV (Some (exported_rows N ledger)) (handleExportCSV s)))
             = length ledger
         \<and> map amount (transactions
               (handleImportCSV (Some (exported_rows N ledger)) (handleExportCSV s)))
             = map amount ledger
         \<and> ((\<forall>tx \<in> set ledger. description tx \<noteq> None \<and> category tx \<noteq> []) \<longrightarrow>
               transactions
                 (handleImportCSV (Some (exported_rows N ledger)) (handleExportCSV s))
               = ledger)"
proof -
  let ?again = "transactions
      (handleImportCSV (Some (exported_rows N ledger)) (handleExportCSV s))"
  let ?fix = "\<lambda>tx. tx\<lparr>description := Some (case description tx of None \<Rightarrow> [] | Some d \<Rightarrow> d),
                       category := (if category tx = [] then ''Other'' else category tx)\<rparr>"
  have again: "?again = map ?fix ledger"
    using import_exported_rows [OF assms] by (simp add: handleImportCSV_def)
  have len: "length ?again = length ledger"
    by (simp add: again)
  have amounts: "map amount ?again = map amount ledger"
    by (simp add: again)
  have same: "?again = ledger"
    if "\<forall>tx \<in> set ledger. description tx \<noteq> None \<and> category tx \<noteq> []"
  proof -
    have "map ?fix ledger = map (\<lambda>tx. tx) ledger"
    proof (rule map_cong [OF refl])
      fix tx
      assume "tx \<in> set ledger"
      with that have "description tx \<noteq> None" "category tx \<noteq> []" by simp_all
      then show "?fix tx = tx" by auto
    qed
    with again show ?thesis by simp
  qed
  from again len amounts same show ?thesis by blast
qed

theorem export_import_round_trip_witness:
  "transactions
     (handleImportCSV (Some (exported_rows example_Number_toString [coffee, paycheck]))
        (handleExportCSV example_state))
     = [coffee, paycheck]
   \<and> transactions
     (handleImportCSV (Some (exported_rows example_Number_toString [nameless]))
        (handleExportCSV example_state))
     = [\<lparr>description = Some [], amount = Fin 5, category = ''Food''\<rparr>]"
  using export_import_round_trip [of "[coffee, paycheck]" example_Number_toString example_state]
    export_import_round_trip [of "[nameless]" example_Number_toString example_state]
  by (simp add: coffee_def paycheck_def nameless_def example_Number_toString_def
      parseFloat_four_and_a_half parseFloat_paycheck parseFloat_five)

subsection \<open>The stored ledger\<close>

lemma step_keeps_storage_in_step:
  assumes "localStorage s ''transactions'' = Some (JSON_stringify f (transactions s))"
  shows "localStorage (step f ev s) ''transactions''
           = Some (JSON_stringify f (transactions (step f ev s)))"
  using assms
  by (cases ev)
     (auto simp: step_def Let_def save_transactions_def save_darkMode_def handleAddTransaction_def
        handleDeleteTransaction_def handleImportCSV_def handleExportCSV_def toggleDarkMode_def
        split: option.splits)

lemma mount_storage_in_step:
  assumes "mount p f storage = Some s"
  shows "localStorage s ''transactions'' = Some (JSON_stringify f (transactions s))"
  using assms
  by (auto simp: mount_def save_transactions_def save_darkMode_def initial_state_def
      split: option.splits if_splits)

lemma reachable_run: "reachable p f s \<Longrightarrow> reachable p f (run f evs s)"
proof (induction evs arbitrary: s)
  case Nil
  then show ?case by (simp add: run_def)
next
  case (Cons ev evs)
  from Cons.prems have "reachable p f (step f ev s)" by (rule reachable.stepped)
  then have "reachable p f (run f evs (step f ev s))" by (rule Cons.IH)
  then show ?case by (simp add: run_def)
qed

lemma mutation_overwrites_storage:
  assumes "sets_transactions ev s"
  shows "localStorage (step f ev s) ''transactions''
           = Some (JSON_stringify f (transactions (step f ev s)))"
  using assms
  by (cases ev)
     (auto simp: step_def Let_def save_transactions_def save_darkMode_def)

text \<open>
  C9. In every state reached from mounting by steps (a handler followed by the effects it
  triggers), the key \<^verbatim>\<open>transactions\<close> of local storage holds exactly the JSON text of the
  whole current ledger. In particular this holds after every addition, deletion and import,
  each of which writes the full ledger anew.
\<close>

theorem storage_mirrors_ledger:
  assumes "reachable p f s"
  shows "localStorage s ''transactions'' = Some (JSON_stringify f (transactions s))"
  using assms
proof (induction rule: reachable.induct)
  case (mounted storage s)
  then show ?case by (rule mount_storage_in_step)
next
  case (stepped s ev)
  from stepped.IH show ?case by (rule step_keeps_storage_in_step)
qed

theorem storage_mirrors_ledger_witness:
  "reachable (\<lambda>_. None) (\<lambda>_. ''0'') (run (\<lambda>_. ''0'') coffee_paycheck_events example_mounted)
   \<and> localStorage (run (\<lambda>_. ''0'') coffee_paycheck_events example_mounted) ''transactions''
       = Some (JSON_stringify (\<lambda>_. ''0'')
           (transactions (run (\<lambda>_. ''0'') coffee_paycheck_events example_mounted)))"
proof -
  have "mount (\<lambda>_. None) (\<lambda>_. ''0'') Map.empty = Some example_mounted"
    by (simp add: mount_def example_mounted_def initial_state_def)
  then have "reachable (\<lambda>_. None) (\<lambda>_. ''0'') example_mounted"
    by (rule reachable.mounted)
  then have r: "reachable (\<lambda>_. None) (\<lambda>_. ''0'')
      (run (\<lambda>_. ''0'') coffee_paycheck_events example_mounted)"
    by (rule reachable_run)
  from r storage_mirrors_ledger [OF r] show ?thesis by simp
qed

end
